theory Spec2Isabelle
  imports Complex_Main "HOL-Library.Sublist"
begin

section \<open>JavaScript values of the toast component\<close>

text \<open>
  A JavaScript number, as far as \<^verbatim>\<open>Toast.tsx\<close> looks at one: the component compares a
  duration with \<^verbatim>\<open>0\<close> and tests whether it is falsy. Both zeros of the floating-point
  format are \<open>Finite 0\<close> (they are equal under \<^verbatim>\<open>===\<close> and both falsy).
\<close>

datatype jsnumber = NaN | PosInfinity | NegInfinity | Finite rat

text \<open>
  An optional property of an object (\<^verbatim>\<open>duration?: number\<close>): the key may be missing, it
  may be present with the value \<^verbatim>\<open>undefined\<close>, or present with a value. Object spread
  copies every own key, also one whose value is \<^verbatim>\<open>undefined\<close>, so the two first cases
  differ.
\<close>

datatype 'a optional = Absent | Undefined | Present 'a

text \<open>Reading a property: a missing key reads as \<^verbatim>\<open>undefined\<close> (\<open>None\<close>).\<close>

fun get_prop :: "'a optional \<Rightarrow> 'a option" where
  "get_prop Absent = None"
| "get_prop Undefined = None"
| "get_prop (Present v) = Some v"

text \<open>\<^verbatim>\<open>!x\<close> is false exactly on a truthy \<open>x\<close>; for an optional boolean that is \<^verbatim>\<open>true\<close>.\<close>

fun truthy_bool :: "bool option \<Rightarrow> bool" where
  "truthy_bool None = False"
| "truthy_bool (Some b) = b"

text \<open>A number or \<^verbatim>\<open>undefined\<close> is falsy when it is \<^verbatim>\<open>undefined\<close>, \<^verbatim>\<open>NaN\<close> or zero.\<close>

fun truthy_number :: "jsnumber option \<Rightarrow> bool" where
  "truthy_number None = False"
| "truthy_number (Some NaN) = False"
| "truthy_number (Some (Finite q)) = (q \<noteq> 0)"
| "truthy_number (Some PosInfinity) = True"
| "truthy_number (Some NegInfinity) = True"

text \<open>\<^verbatim>\<open>x !== 0\<close>: only a number equal to zero is strictly equal to \<^verbatim>\<open>0\<close>.\<close>

fun strict_neq_zero :: "jsnumber option \<Rightarrow> bool" where
  "strict_neq_zero (Some (Finite q)) = (q \<noteq> 0)"
| "strict_neq_zero _ = True"

text \<open>\<^verbatim>\<open>x || d\<close> for a number \<open>d\<close>: \<open>x\<close> when it is truthy, else \<open>d\<close>.\<close>

fun or_number :: "jsnumber option \<Rightarrow> jsnumber \<Rightarrow> jsnumber" where
  "or_number None d = d"
| "or_number (Some x) d = (if truthy_number (Some x) then x else d)"

text \<open>\<^verbatim>\<open>s.substr(start, length)\<close> for a start inside or past the string.\<close>

definition substr :: "string \<Rightarrow> nat \<Rightarrow> nat \<Rightarrow> string" where
  "substr s start len = take len (drop start s)"

section \<open>The data model\<close>

datatype ToastType = Success | Error | Warning | Info

text \<open>
  The fields that \<^verbatim>\<open>Toast\<close> and \<^verbatim>\<open>Omit<Toast, 'id'>\<close> share. The field \<^verbatim>\<open>type\<close> is
  \<open>toast_type\<close> here.
\<close>

record ToastFields =
  toast_type :: ToastType
  title :: "string optional"
  message :: string
  duration :: "jsnumber optional"
  persistent :: "bool optional"

text \<open>\<^verbatim>\<open>Toast\<close>, a stored entry: the fields and the \<^verbatim>\<open>id\<close>, here \<open>toast_id\<close>.\<close>

record Toast = ToastFields +
  toast_id :: string

text \<open>
  The argument of \<^verbatim>\<open>addToast\<close>, of type \<^verbatim>\<open>Omit<Toast, 'id'>\<close>. The type asks for the
  fields and forbids no other key: an argument that is not an object literal (a variable
  of type \<^verbatim>\<open>Toast\<close>, say) may have an \<^verbatim>\<open>id\<close> key of its own. \<open>id_key\<close> is its value,
  a string as \<^verbatim>\<open>Toast\<close> declares it, and \<open>None\<close> when the object has no such key.
\<close>

record ToastData = ToastFields +
  id_key :: "string option"

section \<open>The store: \<^verbatim>\<open>ToastProvider\<close>\<close>

text \<open>
  \<^verbatim>\<open>Math.random().toString(36).substr(2, 9)\<close>. The random draw is an input of the model,
  taken after its conversion to base 36 (a string such as \<^verbatim>\<open>0.4fzyo82mvyr\<close>); the
  code's \<^verbatim>\<open>substr\<close> is applied to it.
\<close>

definition generate_id :: "string \<Rightarrow> string" where
  "generate_id r = substr r 2 9"

text \<open>
  The object literal \<^verbatim>\<open>{ id, duration: 5000, ...toastData }\<close>: the keys of \<open>toastData\<close>
  are written last, so its \<^verbatim>\<open>duration\<close> key replaces the default whenever it is
  present, also with the value \<^verbatim>\<open>undefined\<close>, and an \<^verbatim>\<open>id\<close> key of its own replaces
  the generated id \<open>id'\<close>.
\<close>

definition new_toast :: "string \<Rightarrow> ToastData \<Rightarrow> Toast" where
  "new_toast id' toastData =
     \<lparr> toast_type = toast_type toastData,
       title = title toastData,
       message = message toastData,
       duration = (case duration toastData of
                     Absent \<Rightarrow> Present (Finite 5000)
                   | Undefined \<Rightarrow> Undefined
                   | Present n \<Rightarrow> Present n),
       persistent = persistent toastData,
       toast_id = (case id_key toastData of
                     None \<Rightarrow> id'
                   | Some i \<Rightarrow> i) \<rparr>"

text \<open>\<^verbatim>\<open>setToasts(prev => [toast, ...prev])\<close>, with the state passed explicitly.\<close>

definition addToast :: "string \<Rightarrow> ToastData \<Rightarrow> Toast list \<Rightarrow> Toast list" where
  "addToast r toastData prev =
     (let id' = generate_id r;
          t = new_toast id' toastData
      in t # prev)"

text \<open>\<^verbatim>\<open>setToasts(prev => prev.filter(toast => toast.id !== id))\<close>.\<close>

definition removeToast :: "string \<Rightarrow> Toast list \<Rightarrow> Toast list" where
  "removeToast id' prev = filter (\<lambda>t. toast_id t \<noteq> id') prev"

text \<open>
  The shorthands build \<^verbatim>\<open>{ type, message, title }\<close>: the \<^verbatim>\<open>title\<close> key is always
  present, with the value \<^verbatim>\<open>undefined\<close> when the caller gave no title, and the object
  has no \<^verbatim>\<open>id\<close>, \<^verbatim>\<open>duration\<close> or \<^verbatim>\<open>persistent\<close> key.
\<close>

definition shorthand :: "ToastType \<Rightarrow> string \<Rightarrow> string option \<Rightarrow> ToastData" where
  "shorthand ty msg ttl =
     \<lparr> toast_type = ty,
       title = (case ttl of None \<Rightarrow> Undefined | Some s \<Rightarrow> Present s),
       message = msg,
       duration = Absent,
       persistent = Absent,
       id_key = None \<rparr>"

definition success :: "string \<Rightarrow> string \<Rightarrow> string option \<Rightarrow> Toast list \<Rightarrow> Toast list" where
  "success r msg ttl = addToast r (shorthand Success msg ttl)"

definition error :: "string \<Rightarrow> string \<Rightarrow> string option \<Rightarrow> Toast list \<Rightarrow> Toast list" where
  "error r msg ttl = addToast r (shorthand Error msg ttl)"

definition warning :: "string \<Rightarrow> string \<Rightarrow> string option \<Rightarrow> Toast list \<Rightarrow> Toast list" where
  "warning r msg ttl = addToast r (shorthand Warning msg ttl)"

definition info :: "string \<Rightarrow> string \<Rightarrow> string option \<Rightarrow> Toast list \<Rightarrow> Toast list" where
  "info r msg ttl = addToast r (shorthand Info msg ttl)"

subsection \<open>Sequences of calls\<close>

text \<open>
  A call of the store's API. An \<open>AddToast\<close> carries the random draw that
  \<^verbatim>\<open>Math.random\<close> returns in it.
\<close>

datatype call = AddToast string ToastData | RemoveToast string

fun apply_call :: "call \<Rightarrow> Toast list \<Rightarrow> Toast list" where
  "apply_call (AddToast r d) s = addToast r d s"
| "apply_call (RemoveToast i) s = removeToast i s"

fun run :: "call list \<Rightarrow> Toast list \<Rightarrow> Toast list" where
  "run [] s = s"
| "run (c # cs) s = run cs (apply_call c s)"

text \<open>
  The id under which \<^verbatim>\<open>addToast\<close> stores its entry: the generated one, or the one the
  argument carries.
\<close>

definition stored_id :: "string \<Rightarrow> ToastData \<Rightarrow> string" where
  "stored_id r d = toast_id (new_toast (generate_id r) d)"

text \<open>The ids of the active entries.\<close>

definition active_ids :: "Toast list \<Rightarrow> string list" where
  "active_ids s = map toast_id s"

text \<open>The number of \<^verbatim>\<open>addToast\<close> calls of a sequence.\<close>

fun num_adds :: "call list \<Rightarrow> nat" where
  "num_adds [] = 0"
| "num_adds (AddToast r d # cs) = Suc (num_adds cs)"
| "num_adds (RemoveToast i # cs) = num_adds cs"

text \<open>
  The number of completed removals: the \<^verbatim>\<open>removeToast\<close> calls whose id matched an
  active entry when they ran (the others are no-ops).
\<close>

fun completed_removals :: "call list \<Rightarrow> Toast list \<Rightarrow> nat" where
  "completed_removals [] s = 0"
| "completed_removals (AddToast r d # cs) s = completed_removals cs (addToast r d s)"
| "completed_removals (RemoveToast i # cs) s =
     (if i \<in> set (active_ids s) then 1 else 0) + completed_removals cs (removeToast i s)"

text \<open>The number of entries that the \<^verbatim>\<open>removeToast\<close> calls of a sequence dropped.\<close>

fun dropped_entries :: "call list \<Rightarrow> Toast list \<Rightarrow> nat" where
  "dropped_entries [] s = 0"
| "dropped_entries (AddToast r d # cs) s = dropped_entries cs (addToast r d s)"
| "dropped_entries (RemoveToast i # cs) s =
     (length s - length (removeToast i s)) + dropped_entries cs (removeToast i s)"

text \<open>
  No id of a sequence collides: the id under which each \<^verbatim>\<open>addToast\<close> stores its entry
  is the id of no entry that is active when the call runs.
\<close>

fun fresh_ids :: "call list \<Rightarrow> Toast list \<Rightarrow> bool" where
  "fresh_ids [] s = True"
| "fresh_ids (AddToast r d # cs) s =
     (stored_id r d \<notin> set (active_ids s) \<and> fresh_ids cs (addToast r d s))"
| "fresh_ids (RemoveToast i # cs) s = fresh_ids cs (removeToast i s)"

text \<open>The ids that the \<^verbatim>\<open>removeToast\<close> calls of a sequence ask to remove.\<close>

fun removal_ids :: "call list \<Rightarrow> string list" where
  "removal_ids [] = []"
| "removal_ids (AddToast r d # cs) = removal_ids cs"
| "removal_ids (RemoveToast i # cs) = i # removal_ids cs"

text \<open>The entries that the \<^verbatim>\<open>addToast\<close> calls of a sequence created, oldest first.\<close>

fun created :: "call list \<Rightarrow> Toast list" where
  "created [] = []"
| "created (AddToast r d # cs) = new_toast (generate_id r) d # created cs"
| "created (RemoveToast i # cs) = created cs"

text \<open>The number of active entries that carry a given id.\<close>

definition entries_with_id :: "string \<Rightarrow> Toast list \<Rightarrow> nat" where
  "entries_with_id i s = length (filter (\<lambda>t. toast_id t = i) s)"

section \<open>The consumption API: \<^verbatim>\<open>useToast\<close>\<close>

datatype js_error = JsError string

text \<open>
  \<^verbatim>\<open>useContext\<close> returns the value of the nearest enclosing provider, and the default
  given to \<^verbatim>\<open>createContext\<close> when no provider encloses the caller. The providers are
  listed innermost first.
\<close>

definition useContext :: "'v list \<Rightarrow> 'v \<Rightarrow> 'v" where
  "useContext providers dflt = (case providers of [] \<Rightarrow> dflt | v # _ \<Rightarrow> v)"

text \<open>
  \<^verbatim>\<open>createContext<ToastContextType | undefined>(undefined)\<close>: a context value is the API
  object of a provider or \<^verbatim>\<open>undefined\<close> (\<open>None\<close>), and the default is \<^verbatim>\<open>undefined\<close>.
  The \<^verbatim>\<open>throw\<close> is the \<open>Inl\<close> result.
\<close>

definition useToast :: "'ctx option list \<Rightarrow> js_error + 'ctx" where
  "useToast providers =
     (let context = useContext providers None
      in case context of
           None \<Rightarrow> Inl (JsError ''useToast must be used within a ToastProvider'')
         | Some c \<Rightarrow> Inr c)"

section \<open>The legacy function \<^verbatim>\<open>toast\<close>\<close>

text \<open>
  What a call can touch: the collection of the mounted store and the console, a list of
  the warnings written so far.
\<close>

record World =
  toasts :: "Toast list"
  console_warnings :: "string list"

text \<open>
  \<^verbatim>\<open>toast(message, type = 'info')\<close>: the body is the one \<^verbatim>\<open>console.warn\<close> call. A
  missing \<open>type\<close> argument is \<open>None\<close>; the default fills it in and the body never reads it.
\<close>

definition toast :: "string \<Rightarrow> ToastType option \<Rightarrow> World \<Rightarrow> World" where
  "toast msg ty w =
     (let ty' = (case ty of None \<Rightarrow> Info | Some v \<Rightarrow> v)
      in w\<lparr> console_warnings := console_warnings w @
               [''Legacy toast function called. Please use useToast hook instead.''] \<rparr>)"

section \<open>The entry view: \<^verbatim>\<open>ToastItem\<close>\<close>

text \<open>
  The second effect of \<^verbatim>\<open>ToastItem\<close>:
  \<^verbatim>\<open>if (!toast.persistent && toast.duration !== 0) setTimeout(..., toast.duration || 5000)\<close>.
  The result is the delay handed to \<^verbatim>\<open>setTimeout\<close>, and \<open>None\<close> when the effect
  schedules no timer.
\<close>

definition expiry_delay :: "Toast \<Rightarrow> jsnumber option" where
  "expiry_delay t =
     (if \<not> truthy_bool (get_prop (persistent t)) \<and> strict_neq_zero (get_prop (duration t))
      then Some (or_number (get_prop (duration t)) (Finite 5000))
      else None)"

text \<open>
  The platform's timer. The delay of \<^verbatim>\<open>setTimeout\<close> is converted to a signed 32-bit
  integer (truncated towards zero and wrapped; \<^verbatim>\<open>NaN\<close> and the infinities give 0), and
  a negative result counts as 0. Times are in milliseconds.
\<close>

definition to_int32 :: "rat \<Rightarrow> int" where
  "to_int32 q =
     (let n = (if q < 0 then \<lceil>q\<rceil> else \<lfloor>q\<rfloor>);
          m = n mod 4294967296
      in if 2147483648 \<le> m then m - 4294967296 else m)"

fun timeout_ms :: "jsnumber \<Rightarrow> nat" where
  "timeout_ms (Finite q) = nat (max 0 (to_int32 q))"
| "timeout_ms _ = 0"

text \<open>
  \<^verbatim>\<open>setTimeout(f, delay)\<close> called at time \<open>now\<close>: the time at which \<open>f\<close> runs, which is
  the delay later, or later still by \<open>late\<close> milliseconds when the event loop is busy.
\<close>

definition setTimeout :: "nat \<Rightarrow> jsnumber \<Rightarrow> nat \<Rightarrow> nat" where
  "setTimeout now delay late = now + timeout_ms delay + late"

text \<open>
  \<^verbatim>\<open>handleRemove\<close> called at time \<open>now\<close>: the entry starts leaving, and
  \<^verbatim>\<open>onRemove(toast.id)\<close> is scheduled 300 ms later. The result is the time of the
  \<^verbatim>\<open>onRemove\<close> call and its argument.
\<close>

definition handleRemove :: "nat \<Rightarrow> nat \<Rightarrow> Toast \<Rightarrow> nat \<times> string" where
  "handleRemove now late t = (setTimeout now (Finite 300) late, toast_id t)"

text \<open>
  The removal request that the expiry timer of an entry leads to, for an entry mounted
  at time \<open>mounted\<close> that stays mounted and is not dismissed by hand: \<open>None\<close> when the
  effect schedules no timer, else the time and the argument of the \<^verbatim>\<open>onRemove\<close> call.
  \<open>late1\<close> and \<open>late2\<close> are the latenesses of the two timers.
\<close>

definition auto_removal :: "nat \<Rightarrow> nat \<Rightarrow> nat \<Rightarrow> Toast \<Rightarrow> (nat \<times> string) option" where
  "auto_removal mounted late1 late2 t =
     (case expiry_delay t of
        None \<Rightarrow> None
      | Some d \<Rightarrow> Some (handleRemove (setTimeout mounted d late1) late2 t))"

text \<open>Whether the expiry timer of the entry has requested its removal by the time \<open>now\<close>.\<close>

definition auto_removed_by :: "nat \<Rightarrow> nat \<Rightarrow> nat \<Rightarrow> Toast \<Rightarrow> nat \<Rightarrow> bool" where
  "auto_removed_by mounted late1 late2 t now =
     (case auto_removal mounted late1 late2 t of
        None \<Rightarrow> False
      | Some (tm, i) \<Rightarrow> tm \<le> now)"

section \<open>Example inputs\<close>

definition saved :: ToastData where
  "saved = shorthand Success ''Saved successfully'' None"

definition sticky :: ToastData where
  "sticky = \<lparr> toast_type = Warning, title = Absent, message = ''Offline'',
              duration = Absent, persistent = Present True, id_key = None \<rparr>"

definition sticky_undefined :: ToastData where
  "sticky_undefined = \<lparr> toast_type = Warning, title = Absent, message = ''Offline'',
              duration = Undefined, persistent = Present True, id_key = None \<rparr>"

definition undefined_duration :: ToastData where
  "undefined_duration = \<lparr> toast_type = Info, title = Absent, message = ''Hello'',
              duration = Undefined, persistent = Absent, id_key = None \<rparr>"

definition zero_duration :: ToastData where
  "zero_duration = \<lparr> toast_type = Info, title = Absent, message = ''Pinned'',
              duration = Present (Finite 0), persistent = Absent, id_key = None \<rparr>"

text \<open>An argument with an \<^verbatim>\<open>id\<close> key of its own, as a variable of type \<^verbatim>\<open>Toast\<close> has.\<close>

definition carried :: ToastData where
  "carried = \<lparr> toast_type = Error, title = Absent, message = ''Failed'',
              duration = Absent, persistent = Absent, id_key = Some ''abcdefghi'' \<rparr>"

section \<open>Basic facts\<close>

lemma generate_id_example1: "generate_id ''0.abcdefghi1'' = ''abcdefghi''"
  by (simp add: generate_id_def substr_def)

lemma generate_id_example2: "generate_id ''0.abcdefghi2'' = ''abcdefghi''"
  by (simp add: generate_id_def substr_def)

lemma generate_id_example3: "generate_id ''0.4fzyo82mvyr'' = ''4fzyo82mv''"
  by (simp add: generate_id_def substr_def)

lemma toast_id_new_toast:
  "toast_id (new_toast i d) = (case id_key d of None \<Rightarrow> i | Some j \<Rightarrow> j)"
  by (simp add: new_toast_def)

lemma stored_id_eq:
  "stored_id r d = (case id_key d of None \<Rightarrow> generate_id r | Some j \<Rightarrow> j)"
  by (simp add: stored_id_def new_toast_def)

lemma id_key_examples:
  "id_key saved = None" "id_key sticky = None" "id_key sticky_undefined = None"
  "id_key undefined_duration = None" "id_key zero_duration = None"
  "id_key carried = Some ''abcdefghi''"
  by (simp_all add: saved_def shorthand_def sticky_def sticky_undefined_def
      undefined_duration_def zero_duration_def carried_def)

lemma active_ids_Nil: "active_ids [] = []"
  by (simp add: active_ids_def)

lemma active_ids_addToast: "active_ids (addToast r d s) = stored_id r d # active_ids s"
  by (simp add: addToast_def active_ids_def stored_id_def)

lemma active_ids_removeToast:
  "active_ids (removeToast i s) = filter (\<lambda>j. j \<noteq> i) (active_ids s)"
  by (simp add: removeToast_def active_ids_def filter_map comp_def)

lemma removeToast_absent: "i \<notin> set (active_ids s) \<Longrightarrow> removeToast i s = s"
  by (induction s) (auto simp: removeToast_def active_ids_def)

lemma distinct_removeToast:
  "distinct (active_ids s) \<Longrightarrow> distinct (active_ids (removeToast i s))"
  by (simp add: active_ids_removeToast)

text \<open>A removal shortens the collection by the number of entries that carry the id.\<close>

lemma removeToast_length_entries:
  "length (removeToast i s) + entries_with_id i s = length s"
  by (induction s) (simp_all add: removeToast_def entries_with_id_def)

lemma length_removeToast_present:
  "distinct (active_ids s) \<Longrightarrow> i \<in> set (active_ids s) \<Longrightarrow>
   Suc (length (removeToast i s)) = length s"
proof (induction s)
  case Nil
  then show ?case by (simp add: active_ids_def)
next
  case (Cons t s)
  show ?case
  proof (cases "toast_id t = i")
    case True
    with Cons.prems have "i \<notin> set (active_ids s)" by (simp add: active_ids_def)
    then have "removeToast i s = s" by (rule removeToast_absent)
    with True show ?thesis by (simp add: removeToast_def)
  next
    case False
    with Cons.prems have "distinct (active_ids s)" "i \<in> set (active_ids s)"
      by (auto simp: active_ids_def)
    then have "Suc (length (removeToast i s)) = length s" by (rule Cons.IH)
    with False show ?thesis by (simp add: removeToast_def)
  qed
qed

lemma timeout_ms_5000: "timeout_ms (Finite 5000) = 5000"
  by (simp add: to_int32_def)

lemma timeout_ms_300: "timeout_ms (Finite 300) = 300"
  by (simp add: to_int32_def)

text \<open>
  The delay falls back to 5000 when the stored duration is falsy and is not the number
  zero, that is, when it reads as \<^verbatim>\<open>undefined\<close> or is \<^verbatim>\<open>NaN\<close>.
\<close>

lemma expiry_delay_falsy:
  "\<not> truthy_bool (get_prop (persistent t)) \<Longrightarrow> strict_neq_zero (get_prop (duration t)) \<Longrightarrow>
   \<not> truthy_number (get_prop (duration t)) \<Longrightarrow> expiry_delay t = Some (Finite 5000)"
  by (cases "get_prop (duration t)") (simp_all add: expiry_delay_def)

text \<open>
  An argument that carries an id is stored under it, whatever the draw: the second entry
  here takes the id of the first, although the two generated ids differ.
\<close>

lemma carried_id_replaces_generated:
  "generate_id ''0.4fzyo82mvyr'' \<noteq> generate_id ''0.abcdefghi1'' \<and>
   active_ids (addToast ''0.4fzyo82mvyr'' carried (addToast ''0.abcdefghi1'' saved [])) =
     [''abcdefghi'', ''abcdefghi'']"
  by (simp add: active_ids_addToast active_ids_Nil stored_id_eq id_key_examples
      generate_id_example1 generate_id_example3)

lemma auto_removal_5000:
  "expiry_delay t = Some (Finite 5000) \<Longrightarrow>
   auto_removal mounted late1 late2 t =
     Some (mounted + 5000 + late1 + 300 + late2, toast_id t)"
  by (simp add: auto_removal_def handleRemove_def setTimeout_def to_int32_def)

section \<open>Invariants of the store over sequences of calls\<close>

lemma run_distinct:
  "distinct (active_ids s) \<Longrightarrow> fresh_ids cs s \<Longrightarrow> distinct (active_ids (run cs s))"
proof (induction cs arbitrary: s)
  case Nil
  then show ?case by simp
next
  case (Cons c cs)
  show ?case
  proof (cases c)
    case (AddToast r d)
    with Cons.prems have "distinct (active_ids (addToast r d s))"
      and "fresh_ids cs (addToast r d s)"
      by (simp_all add: active_ids_addToast)
    then show ?thesis using AddToast by (simp add: Cons.IH)
  next
    case (RemoveToast i)
    with Cons.prems have "distinct (active_ids (removeToast i s))"
      and "fresh_ids cs (removeToast i s)"
      by (simp_all add: distinct_removeToast)
    then show ?thesis using RemoveToast by (simp add: Cons.IH)
  qed
qed

lemma run_length:
  "distinct (active_ids s) \<Longrightarrow> fresh_ids cs s \<Longrightarrow>
   length (run cs s) + completed_removals cs s = length s + num_adds cs"
proof (induction cs arbitrary: s)
  case Nil
  then show ?case by simp
next
  case (Cons c cs)
  show ?case
  proof (cases c)
    case (AddToast r d)
    with Cons.prems have "distinct (active_ids (addToast r d s))"
      and "fresh_ids cs (addToast r d s)"
      by (simp_all add: active_ids_addToast)
    then have "length (run cs (addToast r d s)) + completed_removals cs (addToast r d s)
        = length (addToast r d s) + num_adds cs" by (rule Cons.IH)
    then show ?thesis using AddToast by (simp add: addToast_def)
  next
    case (RemoveToast i)
    with Cons.prems have d: "distinct (active_ids (removeToast i s))"
      and f: "fresh_ids cs (removeToast i s)"
      by (simp_all add: distinct_removeToast)
    have ih: "length (run cs (removeToast i s)) + completed_removals cs (removeToast i s)
        = length (removeToast i s) + num_adds cs" using d f by (rule Cons.IH)
    show ?thesis
    proof (cases "i \<in> set (active_ids s)")
      case True
      with Cons.prems have "Suc (length (removeToast i s)) = length s"
        by (simp add: length_removeToast_present)
      with ih True RemoveToast show ?thesis by simp
    next
      case False
      then have "removeToast i s = s" by (rule removeToast_absent)
      with ih False RemoveToast show ?thesis by simp
    qed
  qed
qed

text \<open>
  Counted by entries rather than by calls, the balance holds for every sequence, also
  one with colliding draws.
\<close>

lemma run_dropped:
  "length (run cs s) + dropped_entries cs s = length s + num_adds cs"
proof (induction cs arbitrary: s)
  case Nil
  then show ?case by simp
next
  case (Cons c cs)
  show ?case
  proof (cases c)
    case (AddToast r d)
    then show ?thesis using Cons.IH [of "addToast r d s"] by (simp add: addToast_def)
  next
    case (RemoveToast i)
    have "length (removeToast i s) \<le> length s" by (simp add: removeToast_def)
    then show ?thesis using RemoveToast Cons.IH [of "removeToast i s"] by simp
  qed
qed

text \<open>An entry stays active as long as no call asks to remove its id.\<close>

lemma run_keeps:
  "t \<in> set s \<Longrightarrow> toast_id t \<notin> set (removal_ids cs) \<Longrightarrow> t \<in> set (run cs s)"
proof (induction cs arbitrary: s)
  case Nil
  then show ?case by simp
next
  case (Cons c cs)
  show ?case
  proof (cases c)
    case (AddToast r d)
    with Cons.prems have "t \<in> set (addToast r d s)" and "toast_id t \<notin> set (removal_ids cs)"
      by (simp_all add: addToast_def)
    then show ?thesis using AddToast by (simp add: Cons.IH)
  next
    case (RemoveToast i)
    with Cons.prems have "t \<in> set (removeToast i s)" and "toast_id t \<notin> set (removal_ids cs)"
      by (auto simp: removeToast_def)
    then show ?thesis using RemoveToast by (simp add: Cons.IH)
  qed
qed

lemma run_subseq: "subseq (run cs s) (rev (created cs) @ s)"
proof (induction cs arbitrary: s)
  case Nil
  then show ?case by simp
next
  case (Cons c cs)
  show ?case
  proof (cases c)
    case (AddToast r d)
    then show ?thesis using Cons.IH [of "addToast r d s"] by (simp add: addToast_def)
  next
    case (RemoveToast i)
    have "subseq (removeToast i s) s" by (simp add: removeToast_def)
    then have "subseq (rev (created cs) @ removeToast i s) (rev (created cs) @ s)"
      by (simp add: subseq_append')
    with Cons.IH [of "removeToast i s"] RemoveToast show ?thesis
      by (auto intro: subseq_order.order_trans)
  qed
qed

section \<open>The claims\<close>

text \<open>
  C1 (amended). Let \<open>cs\<close> be the \<^verbatim>\<open>addToast\<close> and \<^verbatim>\<open>removeToast\<close> calls made so far on a
  store that was empty at first. If the id under which each \<^verbatim>\<open>addToast\<close> stored its entry
  (the generated one, or the one its argument carried) was the id of no entry active at
  that moment, the length of the active collection equals the number of \<^verbatim>\<open>addToast\<close>
  calls minus the number of \<^verbatim>\<open>removeToast\<close> calls whose id matched an active entry.
\<close>

theorem store_length_fresh:
  "fresh_ids cs [] \<Longrightarrow>
   int (length (run cs [])) = int (num_adds cs) - int (completed_removals cs [])"
proof -
  assume "fresh_ids cs []"
  then have "length (run cs []) + completed_removals cs [] = length ([] :: Toast list) + num_adds cs"
    by (intro run_length) (simp_all add: active_ids_def)
  then show ?thesis by simp
qed

theorem store_length_fresh_witness:
  "fresh_ids [AddToast ''0.abcdefghi1'' saved, AddToast ''0.4fzyo82mvyr'' sticky,
              RemoveToast ''abcdefghi'', AddToast ''0.abcdefghi2'' carried,
              RemoveToast ''abcdefghi'', RemoveToast ''abcdefghi''] [] \<and>
   int (length (run [AddToast ''0.abcdefghi1'' saved, AddToast ''0.4fzyo82mvyr'' sticky,
                     RemoveToast ''abcdefghi'', AddToast ''0.abcdefghi2'' carried,
                     RemoveToast ''abcdefghi'', RemoveToast ''abcdefghi''] [])) =
   int (num_adds [AddToast ''0.abcdefghi1'' saved, AddToast ''0.4fzyo82mvyr'' sticky,
                  RemoveToast ''abcdefghi'', AddToast ''0.abcdefghi2'' carried,
                  RemoveToast ''abcdefghi'', RemoveToast ''abcdefghi'']) -
   int (completed_removals [AddToast ''0.abcdefghi1'' saved, AddToast ''0.4fzyo82mvyr'' sticky,
                            RemoveToast ''abcdefghi'', AddToast ''0.abcdefghi2'' carried,
                            RemoveToast ''abcdefghi'', RemoveToast ''abcdefghi''] [])"
proof -
  have h: "fresh_ids [AddToast ''0.abcdefghi1'' saved, AddToast ''0.4fzyo82mvyr'' sticky,
              RemoveToast ''abcdefghi'', AddToast ''0.abcdefghi2'' carried,
              RemoveToast ''abcdefghi'', RemoveToast ''abcdefghi''] []"
    by (simp add: active_ids_addToast active_ids_removeToast active_ids_Nil stored_id_eq
        id_key_examples generate_id_example1 generate_id_example3)
  show ?thesis by (rule conjI [OF h store_length_fresh [OF h]])
qed

text \<open>
  The claim as stated fails when two draws share their first nine digits: both entries
  get the id \<^verbatim>\<open>abcdefghi\<close>, and the one \<^verbatim>\<open>removeToast\<close> call drops both.
\<close>

theorem store_length_collision:
  "length (run [AddToast ''0.abcdefghi1'' saved, AddToast ''0.abcdefghi2'' saved,
                RemoveToast ''abcdefghi''] []) = 0 \<and>
   num_adds [AddToast ''0.abcdefghi1'' saved, AddToast ''0.abcdefghi2'' saved,
             RemoveToast ''abcdefghi''] = 2 \<and>
   completed_removals [AddToast ''0.abcdefghi1'' saved, AddToast ''0.abcdefghi2'' saved,
                       RemoveToast ''abcdefghi''] [] = 1 \<and>
   int (length (run [AddToast ''0.abcdefghi1'' saved, AddToast ''0.abcdefghi2'' saved,
                     RemoveToast ''abcdefghi''] [])) \<noteq>
   int (num_adds [AddToast ''0.abcdefghi1'' saved, AddToast ''0.abcdefghi2'' saved,
                  RemoveToast ''abcdefghi'']) -
   int (completed_removals [AddToast ''0.abcdefghi1'' saved, AddToast ''0.abcdefghi2'' saved,
                            RemoveToast ''abcdefghi''] [])"
  by (simp add: addToast_def removeToast_def active_ids_def toast_id_new_toast
      id_key_examples generate_id_example1 generate_id_example2)

text \<open>
  C2 (amended). For every sequence of \<^verbatim>\<open>addToast\<close> and \<^verbatim>\<open>removeToast\<close> calls from the
  empty store in which the id under which each \<^verbatim>\<open>addToast\<close> stores its entry (the
  generated one, or the one its argument carries) is the id of no entry active at that
  moment, the ids of the active entries are pairwise distinct.
\<close>

theorem active_ids_distinct_fresh:
  "fresh_ids cs [] \<Longrightarrow> distinct (active_ids (run cs []))"
  by (rule run_distinct) (simp_all add: active_ids_def)

theorem active_ids_distinct_fresh_witness:
  "fresh_ids [AddToast ''0.abcdefghi1'' saved, RemoveToast ''abcdefghi'',
              AddToast ''0.abcdefghi2'' carried, AddToast ''0.4fzyo82mvyr'' sticky] [] \<and>
   distinct (active_ids (run [AddToast ''0.abcdefghi1'' saved, RemoveToast ''abcdefghi'',
              AddToast ''0.abcdefghi2'' carried, AddToast ''0.4fzyo82mvyr'' sticky] []))"
proof -
  have h: "fresh_ids [AddToast ''0.abcdefghi1'' saved, RemoveToast ''abcdefghi'',
              AddToast ''0.abcdefghi2'' carried, AddToast ''0.4fzyo82mvyr'' sticky] []"
    by (simp add: active_ids_addToast active_ids_removeToast active_ids_Nil stored_id_eq
        id_key_examples generate_id_example1 generate_id_example3)
  show ?thesis by (rule conjI [OF h active_ids_distinct_fresh [OF h]])
qed

text \<open>
  The claim as stated fails: two draws that share their first nine digits give two active
  entries with the same id.
\<close>

theorem active_ids_collision:
  "active_ids (run [AddToast ''0.abcdefghi1'' saved, AddToast ''0.abcdefghi2'' saved] []) =
     [''abcdefghi'', ''abcdefghi''] \<and>
   \<not> distinct (active_ids
        (run [AddToast ''0.abcdefghi1'' saved, AddToast ''0.abcdefghi2'' saved] []))"
  by (simp add: active_ids_addToast active_ids_Nil stored_id_eq id_key_examples
      generate_id_example1 generate_id_example2)

text \<open>
  C3 (amended). \<^verbatim>\<open>addToast\<close>, given a notification without id, puts one new entry in
  front of the collection and leaves the entries behind it as they were. The id of the
  new entry is the generated one, characters 2 to 10 of the draw; nothing compares it
  with the ids of the active entries, so it is new among them exactly when none of them
  carries those characters as its id. The duration of the new entry is 5000 when the
  caller's object has no \<^verbatim>\<open>duration\<close> key and the caller's value otherwise, and every
  other field is the caller's.
\<close>

theorem addToast_entry:
  "id_key d = None \<Longrightarrow>
   \<exists>t. addToast r d prev = t # prev \<and>
       toast_id t = generate_id r \<and>
       toast_id t = take 9 (drop 2 r) \<and>
       (toast_id t \<in> set (active_ids prev)) = (take 9 (drop 2 r) \<in> set (active_ids prev)) \<and>
       toast_type t = toast_type d \<and>
       title t = title d \<and>
       message t = message d \<and>
       persistent t = persistent d \<and>
       duration t = (case duration d of
                       Absent \<Rightarrow> Present (Finite 5000)
                     | Undefined \<Rightarrow> Undefined
                     | Present n \<Rightarrow> Present n)"
  by (simp add: addToast_def new_toast_def generate_id_def substr_def)

theorem addToast_entry_witness:
  "id_key saved = None \<and>
   (\<exists>t. addToast ''0.abcdefghi1'' saved [new_toast ''4fzyo82mv'' sticky]
           = t # [new_toast ''4fzyo82mv'' sticky] \<and>
       toast_id t = generate_id ''0.abcdefghi1'' \<and>
       toast_id t = take 9 (drop 2 ''0.abcdefghi1'') \<and>
       (toast_id t \<in> set (active_ids [new_toast ''4fzyo82mv'' sticky])) =
         (take 9 (drop 2 ''0.abcdefghi1'') \<in> set (active_ids [new_toast ''4fzyo82mv'' sticky])) \<and>
       toast_type t = toast_type saved \<and>
       title t = title saved \<and>
       message t = message saved \<and>
       persistent t = persistent saved \<and>
       duration t = (case duration saved of
                       Absent \<Rightarrow> Present (Finite 5000)
                     | Undefined \<Rightarrow> Undefined
                     | Present n \<Rightarrow> Present n))"
proof -
  have h: "id_key saved = None"
    by (simp add: id_key_examples)
  show ?thesis by (rule conjI [OF h addToast_entry [OF h]])
qed

text \<open>
  The claim as stated fails in the freshness of the id: a second draw that shares its
  first nine digits with the first gives the new entry an id that an active entry has.
\<close>

theorem addToast_id_not_fresh:
  "id_key saved = None \<and>
   addToast ''0.abcdefghi2'' saved (addToast ''0.abcdefghi1'' saved []) =
     new_toast ''abcdefghi'' saved # addToast ''0.abcdefghi1'' saved [] \<and>
   toast_id (new_toast ''abcdefghi'' saved) = ''abcdefghi'' \<and>
   ''abcdefghi'' \<in> set (active_ids (addToast ''0.abcdefghi1'' saved []))"
  by (simp add: addToast_def active_ids_def toast_id_new_toast id_key_examples
      generate_id_example1 generate_id_example2)

text \<open>
  C4. Every \<^verbatim>\<open>addToast\<close> places its entry at the front; after \<^verbatim>\<open>add(A)\<close> and then
  \<^verbatim>\<open>add(B)\<close> the entry of B stands directly before the entry of A; and after any
  sequence of calls from the empty store the collection is a subsequence of the created
  entries listed newest first, so the active entries are always in insertion order with
  the newest first.
\<close>

theorem newest_first:
  "addToast r d s = new_toast (generate_id r) d # s \<and>
   addToast rB dB (addToast rA dA s) =
     new_toast (generate_id rB) dB # new_toast (generate_id rA) dA # s \<and>
   subseq (run cs []) (rev (created cs))"
  using run_subseq [of cs "[]"] by (simp add: addToast_def)

text \<open>
  C5. \<^verbatim>\<open>removeToast(id)\<close> with an id that matches no active entry returns the collection
  unchanged. With an id that matches, the collection gets shorter; in both cases no entry
  of the result carries the id, every entry with another id is kept, the order of the
  kept entries is the old one, and the length falls by the number of entries that carried
  the id.
\<close>

theorem removeToast_effect:
  "(i \<notin> set (active_ids s) \<longrightarrow> removeToast i s = s) \<and>
   (i \<in> set (active_ids s) \<longrightarrow> length (removeToast i s) < length s) \<and>
   i \<notin> set (active_ids (removeToast i s)) \<and>
   (\<forall>t \<in> set s. toast_id t \<noteq> i \<longrightarrow> t \<in> set (removeToast i s)) \<and>
   subseq (removeToast i s) s \<and>
   length (removeToast i s) + entries_with_id i s = length s"
proof (intro conjI impI)
  assume "i \<notin> set (active_ids s)"
  then show "removeToast i s = s" by (rule removeToast_absent)
next
  assume "i \<in> set (active_ids s)"
  then obtain t where "t \<in> set s" and "\<not> toast_id t \<noteq> i"
    by (auto simp: active_ids_def)
  then have "length (filter (\<lambda>t. toast_id t \<noteq> i) s) < length s"
    by (rule length_filter_less)
  then show "length (removeToast i s) < length s"
    by (simp add: removeToast_def)
next
  show "i \<notin> set (active_ids (removeToast i s))" by (simp add: active_ids_removeToast)
next
  show "\<forall>t \<in> set s. toast_id t \<noteq> i \<longrightarrow> t \<in> set (removeToast i s)"
    by (simp add: removeToast_def)
next
  show "subseq (removeToast i s) s" by (simp add: removeToast_def)
next
  show "length (removeToast i s) + entries_with_id i s = length s"
    by (rule removeToast_length_entries)
qed

theorem removeToast_effect_witness:
  "''zzzzzzzzz'' \<notin> set (active_ids [new_toast ''4fzyo82mv'' sticky, new_toast ''abcdefghi'' saved]) \<and>
   removeToast ''zzzzzzzzz'' [new_toast ''4fzyo82mv'' sticky, new_toast ''abcdefghi'' saved] =
     [new_toast ''4fzyo82mv'' sticky, new_toast ''abcdefghi'' saved] \<and>
   ''abcdefghi'' \<in> set (active_ids [new_toast ''4fzyo82mv'' sticky, new_toast ''abcdefghi'' saved]) \<and>
   length (removeToast ''abcdefghi'' [new_toast ''4fzyo82mv'' sticky, new_toast ''abcdefghi'' saved])
     < length [new_toast ''4fzyo82mv'' sticky, new_toast ''abcdefghi'' saved] \<and>
   new_toast ''4fzyo82mv'' sticky \<in>
     set (removeToast ''abcdefghi'' [new_toast ''4fzyo82mv'' sticky, new_toast ''abcdefghi'' saved])"
proof -
  have a: "''zzzzzzzzz'' \<notin> set (active_ids [new_toast ''4fzyo82mv'' sticky, new_toast ''abcdefghi'' saved])"
    by (simp add: active_ids_def toast_id_new_toast id_key_examples)
  have b: "''abcdefghi'' \<in> set (active_ids [new_toast ''4fzyo82mv'' sticky, new_toast ''abcdefghi'' saved])"
    by (simp add: active_ids_def toast_id_new_toast id_key_examples)
  have c: "new_toast ''4fzyo82mv'' sticky \<in> set [new_toast ''4fzyo82mv'' sticky, new_toast ''abcdefghi'' saved]"
    by simp
  have d: "toast_id (new_toast ''4fzyo82mv'' sticky) \<noteq> ''abcdefghi''"
    by (simp add: toast_id_new_toast id_key_examples)
  show ?thesis
    using a b c d
      removeToast_effect [of "''zzzzzzzzz''" "[new_toast ''4fzyo82mv'' sticky, new_toast ''abcdefghi'' saved]"]
      removeToast_effect [of "''abcdefghi''" "[new_toast ''4fzyo82mv'' sticky, new_toast ''abcdefghi'' saved]"]
    by blast
qed

text \<open>
  C6 (amended). For an entry with \<^verbatim>\<open>persistent = true\<close>, and for an entry with the
  duration 0 (whatever its \<^verbatim>\<open>persistent\<close> field, so also when that is unset), the effect
  of \<^verbatim>\<open>ToastItem\<close> schedules no expiry timer, so the entry's own timer leads to no removal
  request, at whatever time the entry was mounted, however late timers run and however
  much time has passed; and the entry stays active through every sequence of calls in
  which no \<^verbatim>\<open>removeToast\<close> is for its id, so through every removal that the expiry of an
  entry with another id requests.
\<close>

theorem no_expiry_timer:
  assumes "persistent t = Present True \<or> duration t = Present (Finite 0)"
    and "t \<in> set s"
    and "toast_id t \<notin> set (removal_ids cs)"
  shows "expiry_delay t = None \<and>
         auto_removal mounted late1 late2 t = None \<and>
         \<not> auto_removed_by mounted late1 late2 t now \<and>
         t \<in> set (run cs s)"
proof -
  have "expiry_delay t = None"
    using assms(1) by (auto simp: expiry_delay_def)
  then have "expiry_delay t = None \<and>
      auto_removal mounted late1 late2 t = None \<and>
      \<not> auto_removed_by mounted late1 late2 t now"
    by (simp add: auto_removal_def auto_removed_by_def)
  moreover have "t \<in> set (run cs s)"
    using assms(2,3) by (rule run_keeps)
  ultimately show ?thesis by simp
qed

theorem no_expiry_timer_witness:
  "persistent (new_toast ''abcdefghi'' sticky) = Present True \<and>
   new_toast ''abcdefghi'' sticky \<in>
     set [new_toast ''4fzyo82mv'' saved, new_toast ''abcdefghi'' sticky] \<and>
   toast_id (new_toast ''abcdefghi'' sticky) \<notin>
     set (removal_ids [RemoveToast ''4fzyo82mv'', AddToast ''0.4fzyo82mvyr'' saved]) \<and>
   auto_removal 0 0 0 (new_toast ''abcdefghi'' sticky) = None \<and>
   \<not> auto_removed_by 0 0 0 (new_toast ''abcdefghi'' sticky) 1000000 \<and>
   new_toast ''abcdefghi'' sticky \<in>
     set (run [RemoveToast ''4fzyo82mv'', AddToast ''0.4fzyo82mvyr'' saved]
            [new_toast ''4fzyo82mv'' saved, new_toast ''abcdefghi'' sticky]) \<and>
   duration (new_toast ''abcdefghi'' zero_duration) = Present (Finite 0) \<and>
   persistent (new_toast ''abcdefghi'' zero_duration) = Absent \<and>
   auto_removal 0 0 0 (new_toast ''abcdefghi'' zero_duration) = None \<and>
   \<not> auto_removed_by 0 0 0 (new_toast ''abcdefghi'' zero_duration) 1000000 \<and>
   new_toast ''abcdefghi'' zero_duration \<in>
     set (run [RemoveToast ''4fzyo82mv'', AddToast ''0.4fzyo82mvyr'' saved]
            [new_toast ''4fzyo82mv'' saved, new_toast ''abcdefghi'' zero_duration])"
proof -
  have p: "persistent (new_toast ''abcdefghi'' sticky) = Present True"
    by (simp add: new_toast_def sticky_def)
  have z: "duration (new_toast ''abcdefghi'' zero_duration) = Present (Finite 0)"
    by (simp add: new_toast_def zero_duration_def)
  have u: "persistent (new_toast ''abcdefghi'' zero_duration) = Absent"
    by (simp add: new_toast_def zero_duration_def)
  from p have p': "persistent (new_toast ''abcdefghi'' sticky) = Present True \<or>
      duration (new_toast ''abcdefghi'' sticky) = Present (Finite 0)" ..
  from z have z': "persistent (new_toast ''abcdefghi'' zero_duration) = Present True \<or>
      duration (new_toast ''abcdefghi'' zero_duration) = Present (Finite 0)" ..
  have mp: "new_toast ''abcdefghi'' sticky \<in>
      set [new_toast ''4fzyo82mv'' saved, new_toast ''abcdefghi'' sticky]"
    by simp
  have mz: "new_toast ''abcdefghi'' zero_duration \<in>
      set [new_toast ''4fzyo82mv'' saved, new_toast ''abcdefghi'' zero_duration]"
    by simp
  have rp: "toast_id (new_toast ''abcdefghi'' sticky) \<notin>
      set (removal_ids [RemoveToast ''4fzyo82mv'', AddToast ''0.4fzyo82mvyr'' saved])"
    by (simp add: toast_id_new_toast id_key_examples)
  have rz: "toast_id (new_toast ''abcdefghi'' zero_duration) \<notin>
      set (removal_ids [RemoveToast ''4fzyo82mv'', AddToast ''0.4fzyo82mvyr'' saved])"
    by (simp add: toast_id_new_toast id_key_examples)
  show ?thesis
    using p z u mp rp
      no_expiry_timer [OF p' mp rp, of 0 0 0 1000000]
      no_expiry_timer [OF z' mz rz, of 0 0 0 1000000]
    by blast
qed

text \<open>
  The claim as stated fails when an expiring entry shares the id of the persistent one:
  the removal that its timer requests at 5300 ms drops the persistent entry too.
\<close>

theorem persistent_entry_dropped:
  "persistent (new_toast ''abcdefghi'' sticky) = Present True \<and>
   run [AddToast ''0.abcdefghi1'' sticky, AddToast ''0.abcdefghi2'' saved] [] =
     [new_toast ''abcdefghi'' saved, new_toast ''abcdefghi'' sticky] \<and>
   auto_removal 0 0 0 (new_toast ''abcdefghi'' saved) = Some (5300, ''abcdefghi'') \<and>
   removeToast ''abcdefghi''
     (run [AddToast ''0.abcdefghi1'' sticky, AddToast ''0.abcdefghi2'' saved] []) = [] \<and>
   new_toast ''abcdefghi'' sticky \<notin>
     set (removeToast ''abcdefghi''
       (run [AddToast ''0.abcdefghi1'' sticky, AddToast ''0.abcdefghi2'' saved] []))"
proof -
  have "expiry_delay (new_toast ''abcdefghi'' saved) = Some (Finite 5000)"
    by (simp add: expiry_delay_def new_toast_def saved_def shorthand_def)
  then have "auto_removal 0 0 0 (new_toast ''abcdefghi'' saved) = Some (5300, ''abcdefghi'')"
    by (simp add: auto_removal_5000 toast_id_new_toast id_key_examples)
  moreover have "run [AddToast ''0.abcdefghi1'' sticky, AddToast ''0.abcdefghi2'' saved] []
      = [new_toast ''abcdefghi'' saved, new_toast ''abcdefghi'' sticky]"
    by (simp add: addToast_def generate_id_example1 generate_id_example2)
  moreover have "persistent (new_toast ''abcdefghi'' sticky) = Present True"
    by (simp add: new_toast_def sticky_def)
  ultimately show ?thesis
    by (simp add: removeToast_def toast_id_new_toast id_key_examples)
qed




text \<open>
  C8. With no provider mounted around the caller, \<^verbatim>\<open>useToast\<close> throws the error
  \<^verbatim>\<open>useToast must be used within a ToastProvider\<close> and returns no API object; the same
  holds under a provider whose value is \<^verbatim>\<open>undefined\<close>. Under a provider with an API
  object it returns that object.
\<close>

theorem useToast_outside_provider:
  "useToast [] = Inl (JsError ''useToast must be used within a ToastProvider'') \<and>
   (\<forall>c. useToast [] \<noteq> Inr c) \<and>
   useToast (None # providers) =
     Inl (JsError ''useToast must be used within a ToastProvider'') \<and>
   useToast (Some api # providers) = Inr api"
  by (simp add: useToast_def useContext_def)

text \<open>
  C9. For every message and every type argument, the legacy function \<^verbatim>\<open>toast\<close> leaves
  the active collection as it was and writes exactly one warning, the deprecation
  notice, to the console.
\<close>

theorem legacy_toast_inert:
  "toasts (toast msg ty w) = toasts w \<and>
   console_warnings (toast msg ty w) =
     console_warnings w @
       [''Legacy toast function called. Please use useToast hook instead.'']"
  by (simp add: toast_def)

text \<open>
  C10 (amended). When the caller's object has a \<^verbatim>\<open>duration\<close> key with the value
  \<^verbatim>\<open>undefined\<close> and its \<^verbatim>\<open>persistent\<close> field is falsy, the stored entry's duration is
  \<^verbatim>\<open>undefined\<close>, the expiry timer is scheduled with the delay 5000, and, for an entry
  that stays mounted, it fires 5000 ms after the mount (or later by the timer's lateness)
  and the removal request follows 300 ms after that.
\<close>

theorem undefined_duration_expiry:
  assumes "duration d = Undefined"
    and "\<not> truthy_bool (get_prop (persistent d))"
  shows "duration (new_toast i d) = Undefined \<and>
         expiry_delay (new_toast i d) = Some (Finite 5000) \<and>
         auto_removal mounted late1 late2 (new_toast i d)
           = Some (mounted + 5000 + late1 + 300 + late2, toast_id (new_toast i d))"
proof -
  have u: "duration (new_toast i d) = Undefined"
    using assms(1) by (simp add: new_toast_def)
  have p: "\<not> truthy_bool (get_prop (persistent (new_toast i d)))"
    using assms(2) by (simp add: new_toast_def)
  have e: "expiry_delay (new_toast i d) = Some (Finite 5000)"
    using p u by (intro expiry_delay_falsy) simp_all
  have "auto_removal mounted late1 late2 (new_toast i d)
      = Some (mounted + 5000 + late1 + 300 + late2, toast_id (new_toast i d))"
    using e by (rule auto_removal_5000)
  with u e show ?thesis by simp
qed

theorem undefined_duration_expiry_witness:
  "duration undefined_duration = Undefined \<and>
   \<not> truthy_bool (get_prop (persistent undefined_duration)) \<and>
   toast_id (new_toast ''abcdefghi'' undefined_duration) = ''abcdefghi'' \<and>
   duration (new_toast ''abcdefghi'' undefined_duration) = Undefined \<and>
   expiry_delay (new_toast ''abcdefghi'' undefined_duration) = Some (Finite 5000) \<and>
   auto_removal 1004 2 1 (new_toast ''abcdefghi'' undefined_duration)
     = Some (1004 + 5000 + 2 + 300 + 1, toast_id (new_toast ''abcdefghi'' undefined_duration))"
proof -
  have a: "duration undefined_duration = Undefined"
    by (simp add: undefined_duration_def)
  have b: "\<not> truthy_bool (get_prop (persistent undefined_duration))"
    by (simp add: undefined_duration_def)
  have c: "toast_id (new_toast ''abcdefghi'' undefined_duration) = ''abcdefghi''"
    by (simp add: toast_id_new_toast id_key_examples)
  show ?thesis
    using a b c undefined_duration_expiry [OF a b, of "''abcdefghi''" 1004 2 1] by blast
qed

text \<open>
  The claim as stated fails for a caller who passes \<^verbatim>\<open>duration: undefined\<close> together with
  \<^verbatim>\<open>persistent: true\<close>: the guard of the effect schedules no timer.
\<close>

theorem undefined_duration_persistent:
  "duration sticky_undefined = Undefined \<and>
   duration (new_toast ''abcdefghi'' sticky_undefined) = Undefined \<and>
   expiry_delay (new_toast ''abcdefghi'' sticky_undefined) = None \<and>
   auto_removal 0 0 0 (new_toast ''abcdefghi'' sticky_undefined) = None"
  by (simp add: sticky_undefined_def new_toast_def expiry_delay_def auto_removal_def)

end
